theory Spec2Isabelle
  imports Main "HOL-Library.Log_Nat"
begin

section \<open>Summit Resolutions: the goal store of the \<open>Home\<close> component\<close>

text \<open>
  The component keeps one list of goals in React state, mirrors it into local storage
  and derives every view from the list. Each source function becomes a HOL function;
  the state held by \<open>useState\<close> becomes a record that the handlers take and return;
  the environment a handler reads (\<open>new Date()\<close>, \<open>crypto.randomUUID()\<close>,
  \<open>JSON.parse\<close>) becomes an argument of the handler.

  Numbers. Every number of the program is a binary64 value. A count is a finite,
  integer-valued number, modelled by \<open>int\<close>; a target is what \<open>Number.parseInt\<close> returns
  and the form keeps: an integer-valued number or an infinity (\<open>Number\<close> below). \<open>NaN\<close>
  is the value \<open>None\<close> of \<open>parseInt\<close>; an absent optional field is \<open>None\<close>. Each
  arithmetic operation of the source is the exact operation followed by the rounding
  to binary64 (\<open>js_add\<close>, \<open>js_div\<close>, \<open>js_mul\<close>, \<open>toNumber\<close> below). An \<open>int\<close>
  stands for a number of the program when it is a binary64 value itself, as every integer
  of magnitude up to \<open>2 ^ 53\<close> is.

  Strings are \<open>string\<close>: sequences of the code units U+0000 to U+00FF. Of the white
  space that \<open>trim\<close> and \<open>parseInt\<close> strip, the seven characters of this range are
  modelled (tab, line feed, vertical tab, form feed, carriage return, space, no-break
  space).
\<close>

subsection \<open>Types\<close>

datatype GoalType = daily | monthly | anytime

text \<open>A number other than \<open>NaN\<close> whose finite values are integers.\<close>

datatype Number = Finite int | Infinity | NegInfinity

record Goal =
  id_g :: string
  title :: string
  type :: GoalType
  notes_g :: string
  targetCount :: "Number option"
  dueDate :: "string option"
  createdAt :: string
  entries :: "string \<rightharpoonup> int"

record GoalForm =
  title_f :: string
  type_f :: GoalType
  notes_f :: string
  targetCount_f :: string
  dueDate_f :: string

text \<open>The three \<open>useState\<close> cells of \<open>Home\<close>.\<close>

record Home =
  goals :: "Goal list"
  form :: GoalForm
  isLoaded :: bool

text \<open>What the program reads of a \<open>Date\<close>: the results of its three accessors
  (\<open>getMonth\<close> counts from 0).\<close>

record Date =
  getFullYear :: int
  getMonth :: int
  getDate :: int

definition emptyForm :: GoalForm where
  "emptyForm = \<lparr>title_f = '''', type_f = daily, notes_f = '''', targetCount_f = '''',
     dueDate_f = ''''\<rparr>"

definition initialHome :: Home where
  "initialHome = \<lparr>goals = [], form = emptyForm, isLoaded = False\<rparr>"

subsection \<open>Period keys\<close>

text \<open>\<open>String(value)\<close> on an integer: its decimal digits, with a minus sign when negative.\<close>

fun digits :: "nat \<Rightarrow> string" where
  "digits n = (if n < 10 then [''0123456789'' ! n]
     else digits (n div 10) @ [''0123456789'' ! (n mod 10)])"

declare digits.simps [simp del]

definition String_of :: "int \<Rightarrow> string" where
  "String_of v = (if v < 0 then CHR ''-'' # digits (nat (- v)) else digits (nat v))"

text \<open>\<open>s.padStart(n, c)\<close> with a one-character filler: nothing is added to a string
  that is long enough already.\<close>

definition padStart :: "nat \<Rightarrow> char \<Rightarrow> string \<Rightarrow> string" where
  "padStart n c s = (if n \<le> length s then s else replicate (n - length s) c @ s)"

definition pad :: "int \<Rightarrow> string" where
  "pad v = padStart 2 (CHR ''0'') (String_of v)"

definition formatDateKey :: "Date \<Rightarrow> string" where
  "formatDateKey date =
     (let year = getFullYear date;
          month = pad (getMonth date + 1);
          day = pad (getDate date)
      in String_of year @ ''-'' @ month @ ''-'' @ day)"

definition formatMonthKey :: "Date \<Rightarrow> string" where
  "formatMonthKey date =
     (let year = getFullYear date;
          month = pad (getMonth date + 1)
      in String_of year @ ''-'' @ month)"

definition getPeriodKey :: "GoalType \<Rightarrow> Date \<Rightarrow> string" where
  "getPeriodKey ty date =
     (if ty = daily then formatDateKey date
      else if ty = monthly then formatMonthKey date
      else ''all'')"

subsection \<open>Arithmetic of numbers\<close>

text \<open>
  \<open>a + b\<close>, \<open>a / b\<close> and \<open>a * b\<close> on finite numbers return the binary64 value nearest
  to the exact result, ties going to the even significand. \<open>binary64 x\<close> is that value
  for a rational \<open>x\<close>: with \<open>2 ^ e \<le> \<bar>x\<bar> < 2 ^ (e + 1)\<close> the representable numbers
  around \<open>x\<close> are the multiples of \<open>2 ^ (e - 52)\<close>. The exponent range is not bounded
  in \<open>binary64\<close> (no subnormal numbers; the overflow to an infinity is written out
  where a value is stored, in \<open>toNumber\<close>). \<open>ilog2 x\<close> is the exponent \<open>e\<close> of a
  positive \<open>x\<close>, found from the bit lengths of its numerator and denominator.
  \<open>Math.round\<close> returns the nearest integer, the upper one at a tie.
\<close>

definition ilog2 :: "rat \<Rightarrow> int" where
  "ilog2 x =
     (let (a, b) = quotient_of x;
          k = bitlen a - bitlen b
      in if 2 powi k \<le> x then k else k - 1)"

definition round_half_even :: "rat \<Rightarrow> int" where
  "round_half_even x =
     (let n = \<lfloor>x\<rfloor>; r = x - of_int n
      in if r < 1 / 2 then n
         else if 1 / 2 < r then n + 1
         else if even n then n else n + 1)"

definition binary64 :: "rat \<Rightarrow> rat" where
  "binary64 x =
     (if x = 0 then 0
      else
        (let e = ilog2 \<bar>x\<bar>
         in of_int (round_half_even (x * 2 powi (52 - e))) * 2 powi (e - 52)))"

definition js_div :: "rat \<Rightarrow> rat \<Rightarrow> rat" where
  "js_div a b = binary64 (a / b)"

definition js_mul :: "rat \<Rightarrow> rat \<Rightarrow> rat" where
  "js_mul a b = binary64 (a * b)"

definition Math_round :: "rat \<Rightarrow> int" where
  "Math_round x = \<lfloor>x + 1 / 2\<rfloor>"

text \<open>The sum of two counts. The rounded sum of two integers is an integer again
  (\<open>js_add_integral\<close> below), so the floor only converts the type. A sum that reaches
  \<open>2 ^ 1024\<close> after rounding is an infinity in the program, which a count of the model
  does not hold; the source calls the adjustment with \<open>delta\<close> 1 and -1 only, and no
  finite count reaches an infinity by such a step.\<close>

definition js_add :: "int \<Rightarrow> int \<Rightarrow> int" where
  "js_add a b = \<lfloor>binary64 (of_int a + of_int b)\<rfloor>"

text \<open>The number for a mathematical integer, as \<open>parseInt\<close> returns it: the nearest
  binary64 value, or an infinity when that value reaches \<open>2 ^ 1024\<close>.\<close>

definition toNumber :: "int \<Rightarrow> Number" where
  "toNumber v =
     (let r = \<lfloor>binary64 (of_int v)\<rfloor>
      in if 2 ^ 1024 \<le> r then Infinity
         else if r \<le> - (2 ^ 1024) then NegInfinity
         else Finite r)"

text \<open>\<open>count >= target\<close> and \<open>count / target\<close> for a finite count: no finite number
  reaches \<open>Infinity\<close>, every one reaches \<open>-Infinity\<close>, and a finite number divided by
  an infinity is a zero.\<close>

definition js_ge :: "int \<Rightarrow> Number \<Rightarrow> bool" where
  "js_ge a b = (case b of Finite t \<Rightarrow> t \<le> a | Infinity \<Rightarrow> False | NegInfinity \<Rightarrow> True)"

definition js_div_Number :: "int \<Rightarrow> Number \<Rightarrow> rat" where
  "js_div_Number a b =
     (case b of Finite t \<Rightarrow> js_div (of_int a) (of_int t) | Infinity \<Rightarrow> 0 | NegInfinity \<Rightarrow> 0)"

subsection \<open>Derived values of one goal\<close>

text \<open>The truth value of an optional number in a condition: \<open>undefined\<close> and \<open>0\<close>
  are falsy, every other number of the model is truthy.\<close>

definition truthy :: "Number option \<Rightarrow> bool" where
  "truthy v = (case v of None \<Rightarrow> False | Some n \<Rightarrow> n \<noteq> Finite 0)"

definition getTargetForGoal :: "Goal \<Rightarrow> Number option" where
  "getTargetForGoal goal =
     (if truthy (targetCount goal) then targetCount goal
      else if type goal = anytime then None
      else Some (Finite 1))"

definition getCountForPeriod :: "Goal \<Rightarrow> string \<Rightarrow> int" where
  "getCountForPeriod goal periodKey =
     (case entries goal periodKey of None \<Rightarrow> 0 | Some n \<Rightarrow> n)"

definition isGoalComplete :: "Goal \<Rightarrow> string \<Rightarrow> bool" where
  "isGoalComplete goal periodKey =
     (let target = getTargetForGoal goal;
          count = getCountForPeriod goal periodKey
      in case target of
           Some t \<Rightarrow> if t \<noteq> Finite 0 then js_ge count t else 0 < count
         | None \<Rightarrow> 0 < count)"

subsection \<open>Adjusting a count\<close>

text \<open>\<open>updateGoalCount\<close> maps over the list held in state; \<open>now\<close> is the value of
  \<open>new Date()\<close> that \<open>getPeriodKey\<close> takes by default.\<close>

definition updateGoalCount :: "Date \<Rightarrow> string \<Rightarrow> int \<Rightarrow> Home \<Rightarrow> Home" where
  "updateGoalCount now goalId delta st =
     st\<lparr>goals :=
       map (\<lambda>goal.
         if id_g goal \<noteq> goalId then goal
         else
           (let periodKey = getPeriodKey (type goal) now;
                currentCount = getCountForPeriod goal periodKey;
                nextCount = max 0 (js_add currentCount delta)
            in goal\<lparr>entries := (entries goal)(periodKey \<mapsto> nextCount)\<rparr>))
         (goals st)\<rparr>"

definition deleteGoal :: "string \<Rightarrow> Home \<Rightarrow> Home" where
  "deleteGoal goalId st = st\<lparr>goals := filter (\<lambda>goal. id_g goal \<noteq> goalId) (goals st)\<rparr>"

subsection \<open>Creating a goal\<close>

text \<open>The white space of the language among the code units of the model: the five
  control characters, the space and the no-break space U+00A0.\<close>

definition isWhiteSpace :: "char \<Rightarrow> bool" where
  "isWhiteSpace c =
     (c \<in> set [CHR 0x09, CHR 0x0A, CHR 0x0B, CHR 0x0C, CHR 0x0D, CHR '' '', CHR 0xA0])"

definition trim :: "string \<Rightarrow> string" where
  "trim s = rev (dropWhile isWhiteSpace (rev (dropWhile isWhiteSpace s)))"

definition isDigit :: "char \<Rightarrow> bool" where
  "isDigit c = (c \<in> set ''0123456789'')"

definition digitValue :: "char \<Rightarrow> nat" where
  "digitValue c = of_char c - 48"

text \<open>\<open>Number.parseInt(s, 10)\<close>: leading white space is skipped, one sign is read, and
  the longest run of decimal digits that follows is read as an integer; with no digit
  there the result is \<open>NaN\<close>, here \<open>None\<close>. Whatever follows the digits is ignored.
  The result is the number for that integer (\<open>toNumber\<close>): rounded to binary64, and an
  infinity for a run of digits that is long enough. Every digit of the run counts (the
  standard lets an implementation read the digits after the twentieth as zeros).\<close>

definition parseInt :: "string \<Rightarrow> Number option" where
  "parseInt s =
     (let S = dropWhile isWhiteSpace s;
          sign = (if S \<noteq> [] \<and> hd S = CHR ''-'' then - 1 else 1);
          S' = (if S \<noteq> [] \<and> (hd S = CHR ''+'' \<or> hd S = CHR ''-'') then tl S else S);
          Z = takeWhile isDigit S'
      in if Z = [] then None
         else Some (toNumber (sign * int (foldl (\<lambda>a c. 10 * a + digitValue c) 0 Z))))"

text \<open>\<open>handleSubmit\<close> reads the form held in state. \<open>randomUUID\<close> and \<open>nowISO\<close> are
  the values of \<open>crypto.randomUUID()\<close> and \<open>new Date().toISOString()\<close> at the call.
  The local \<open>targetCount0\<close> is \<open>None\<close> for \<open>undefined\<close>, \<open>Some None\<close> for \<open>NaN\<close>.\<close>

definition handleSubmit :: "string \<Rightarrow> string \<Rightarrow> Home \<Rightarrow> Home" where
  "handleSubmit randomUUID nowISO st =
     (if trim (title_f (form st)) = [] then st
      else
        (let targetCount0 =
               (if targetCount_f (form st) \<noteq> [] then Some (parseInt (targetCount_f (form st)))
                else None);
             nextGoal =
               \<lparr>id_g = randomUUID,
                title = trim (title_f (form st)),
                type = type_f (form st),
                notes_g = trim (notes_f (form st)),
                targetCount =
                  (case targetCount0 of
                     None \<Rightarrow> None
                   | Some None \<Rightarrow> None
                   | Some (Some n) \<Rightarrow> if n = Finite 0 then None else Some n),
                dueDate = (if dueDate_f (form st) \<noteq> [] then Some (dueDate_f (form st)) else None),
                createdAt = nowISO,
                entries = Map.empty\<rparr>
         in st\<lparr>goals := nextGoal # goals st, form := emptyForm\<rparr>))"

subsection \<open>Loading the stored list\<close>

text \<open>What \<open>JSON.parse\<close> returns, as far as the load effect looks at it: an array,
  whose elements the program takes to be goals (the cast \<open>as Goal[]\<close>), or any other
  value. The parser itself is an argument of the effect; \<open>None\<close> is a thrown
  \<open>SyntaxError\<close>. \<open>stored\<close> is the result of \<open>localStorage.getItem\<close>.\<close>

datatype Parsed = Array "Goal list" | NotArray

definition loadEffect :: "(string \<Rightarrow> Parsed option) \<Rightarrow> string option \<Rightarrow> Home \<Rightarrow> Home" where
  "loadEffect JSON_parse stored st =
     (let st' =
        (case stored of
           None \<Rightarrow> st
         | Some s \<Rightarrow>
             if s = [] then st
             else
               (case JSON_parse s of
                  None \<Rightarrow> st
                | Some parsed \<Rightarrow>
                    (case parsed of Array xs \<Rightarrow> st\<lparr>goals := xs\<rparr> | NotArray \<Rightarrow> st)))
      in st'\<lparr>isLoaded := True\<rparr>)"

subsection \<open>Statistics\<close>









subsection \<open>The card of one goal\<close>

text \<open>\<open>progress\<close> is the constant of that name in \<open>GoalCard\<close>; \<open>progressBar\<close> is what
  the card renders of it: the bar and its caption exist only under a truthy target.\<close>

definition progress :: "Goal \<Rightarrow> string \<Rightarrow> int" where
  "progress goal periodKey =
     (let count = getCountForPeriod goal periodKey;
          target = getTargetForGoal goal
      in if truthy target
         then min 100 (Math_round (js_mul (js_div_Number count (the target)) 100))
         else 0)"

definition progressBar :: "Goal \<Rightarrow> string \<Rightarrow> int option" where
  "progressBar goal periodKey =
     (if truthy (getTargetForGoal goal) then Some (progress goal periodKey) else None)"

subsection \<open>The percentages as the specification words them\<close>


definition spec_Progress :: "Goal \<Rightarrow> string \<Rightarrow> int option" where
  "spec_Progress goal periodKey =
     (case getTargetForGoal goal of
        None \<Rightarrow> None
      | Some (Finite t) \<Rightarrow>
          Some (min 100 (Math_round (100 * of_int (getCountForPeriod goal periodKey) / of_int t)))
      | Some Infinity \<Rightarrow> Some 0
      | Some NegInfinity \<Rightarrow> Some 0)"

subsection \<open>Example data\<close>

definition jan5 :: Date where
  "jan5 = \<lparr>getFullYear = 2026, getMonth = 0, getDate = 5\<rparr>"

definition walk :: Goal where
  "walk = \<lparr>id_g = ''g1'', title = ''Walk among the pines'', type = daily, notes_g = [],
     targetCount = Some (Finite 4), dueDate = None, createdAt = ''2026-01-01T08:00:00.000Z'',
     entries = Map.empty\<rparr>"

definition summit :: Goal where
  "summit = \<lparr>id_g = ''g2'', title = ''Reach the summit'', type = anytime, notes_g = [],
     targetCount = None, dueDate = None, createdAt = ''2026-01-01T08:00:00.000Z'',
     entries = [''all'' \<mapsto> 1]\<rparr>"

definition rest_day :: Goal where
  "rest_day = \<lparr>id_g = ''g3'', title = ''Rest'', type = anytime, notes_g = [],
     targetCount = None, dueDate = None, createdAt = ''2026-01-01T08:00:00.000Z'',
     entries = Map.empty\<rparr>"


definition zero_target :: Goal where
  "zero_target = \<lparr>id_g = ''g5'', title = ''Stretch'', type = daily, notes_g = [],
     targetCount = Some (Finite 0), dueDate = None, createdAt = ''2026-01-01T08:00:00.000Z'',
     entries = Map.empty\<rparr>"

text \<open>A stored goal whose count for the day is \<open>2 ^ 53\<close>.\<close>

definition steps :: Goal where
  "steps = \<lparr>id_g = ''g6'', title = ''Count steps'', type = daily, notes_g = [],
     targetCount = None, dueDate = None, createdAt = ''2026-01-01T08:00:00.000Z'',
     entries = [''2026-01-05'' \<mapsto> 9007199254740992]\<rparr>"

definition home1 :: Home where
  "home1 = \<lparr>goals = [walk, summit], form = emptyForm, isLoaded = True\<rparr>"

text \<open>A stored list in which a goal carries a version 4 identifier.\<close>

definition uuid1 :: string where
  "uuid1 = ''3f2b8c1e-5d4a-4e6f-9a7b-0c1d2e3f4a5b''"

definition home2 :: Home where
  "home2 = \<lparr>goals = [walk\<lparr>id_g := uuid1\<rparr>, summit], form = emptyForm, isLoaded = True\<rparr>"


definition form_of :: "string \<Rightarrow> string \<Rightarrow> GoalForm" where
  "form_of ttl tc = \<lparr>title_f = ttl, type_f = monthly, notes_f = '' alpine '',
     targetCount_f = tc, dueDate_f = []\<rparr>"

text \<open>\<open>parse1\<close> stands for \<open>JSON.parse\<close> on three stored texts: one that holds an
  array of one goal, one that holds an object, and one that does not parse.\<close>

definition parse1 :: "string \<Rightarrow> Parsed option" where
  "parse1 s =
     (if s = ''[walk]'' then Some (Array [walk])
      else if s = ''{}'' then Some NotArray
      else None)"

section \<open>Binary64 rounding\<close>


lemma pow2_bitlen:
  fixes a :: int
  assumes "0 < a"
  shows "(2::rat) powi (bitlen a - 1) \<le> of_int a" and "(of_int a :: rat) < 2 powi (bitlen a)"
proof -
  from bitlen_bounds [OF assms]
  have lo: "2 ^ nat (bitlen a - 1) \<le> a" and hi: "a < 2 ^ nat (bitlen a)" by auto
  have ge1: "1 \<le> bitlen a" using assms by (simp add: bitlen_alt_def)
  have "(of_int (2 ^ nat (bitlen a - 1)) :: rat) \<le> of_int a"
    using lo by (simp only: of_int_le_iff)
  then show "(2::rat) powi (bitlen a - 1) \<le> of_int a"
    using ge1 by (simp add: power_int_def)
  have "(of_int a :: rat) < of_int (2 ^ nat (bitlen a))"
    using hi by (simp only: of_int_less_iff)
  then show "(of_int a :: rat) < 2 powi (bitlen a)"
    using ge1 by (simp add: power_int_def)
qed

lemma ilog2_bounds:
  assumes "0 < x"
  shows "2 powi (ilog2 x) \<le> x" and "x < 2 powi (ilog2 x + 1)"
proof -
  obtain a b where q: "quotient_of x = (a, b)" by (cases "quotient_of x")
  have b: "0 < b" using q by (rule quotient_of_denom_pos)
  have x: "x = of_int a / of_int b" using q by (rule quotient_of_div)
  have a: "0 < a" using assms b x by (simp add: zero_less_divide_iff)
  define k where "k = bitlen a - bitlen b"
  have il: "ilog2 x = (if 2 powi k \<le> x then k else k - 1)"
    by (simp add: ilog2_def q k_def Let_def)
  note A = pow2_bitlen [OF a] and B = pow2_bitlen [OF b]
  have A0: "(0::rat) < of_int a" and B0: "(0::rat) < of_int b" using a b by simp_all
  have P: "(0::rat) < 2 powi n" for n by simp
  have up: "x < 2 powi (k + 1)"
  proof -
    have "of_int a / of_int b < (2::rat) powi (bitlen a) / 2 powi (bitlen b - 1)"
      using A(2) B(1) A0 P by (intro frac_less) simp_all
    also have "\<dots> = 2 powi (bitlen a - (bitlen b - 1))"
      by (simp add: power_int_diff)
    also have "bitlen a - (bitlen b - 1) = k + 1" by (simp add: k_def)
    finally show ?thesis by (simp add: x)
  qed
  have lo: "2 powi (k - 1) < x"
  proof -
    have "(2::rat) powi (bitlen a - 1) / 2 powi (bitlen b) < of_int a / of_int b"
      using A(1) B(2) B0 P by (intro frac_less2) simp_all
    moreover have "(2::rat) powi (bitlen a - 1) / 2 powi (bitlen b) = 2 powi (bitlen a - 1 - bitlen b)"
      by (simp add: power_int_diff)
    moreover have "bitlen a - 1 - bitlen b = k - 1" by (simp add: k_def)
    ultimately show ?thesis by (simp add: x)
  qed
  show "2 powi (ilog2 x) \<le> x"
    using lo by (simp add: il)
  show "x < 2 powi (ilog2 x + 1)"
    using up by (auto simp add: il not_le)
qed



text \<open>An integer of magnitude below \<open>2 ^ 53\<close> is a binary64 number: a count and a
  target enter the quotient as they are.\<close>

lemma round_half_even_of_int: "round_half_even (of_int n) = n"
  by (simp add: round_half_even_def)

lemma binary64_of_int:
  assumes "\<bar>m\<bar> < 2 ^ 53"
  shows "binary64 (of_int m) = of_int m"
proof (cases "m = 0")
  case True
  then show ?thesis by (simp add: binary64_def)
next
  case False
  define x :: rat where "x = of_int m"
  define e where "e = ilog2 \<bar>x\<bar>"
  have x0: "0 < \<bar>x\<bar>" using False by (simp add: x_def)
  have "2 powi e \<le> \<bar>x\<bar>" unfolding e_def using x0 by (rule ilog2_bounds)
  also have "\<bar>x\<bar> < 2 ^ 53"
  proof -
    have "(of_int \<bar>m\<bar> :: rat) < of_int (2 ^ 53)" using assms by (simp only: of_int_less_iff)
    then show ?thesis by (simp add: x_def)
  qed
  finally have "(2::rat) powi e < 2 powi 53" by simp
  then have "e < 53" by (rule power_int_le_imp_less_exp [rotated]) simp_all
  then have e: "e \<le> 52" by simp
  have "x * 2 powi (52 - e) = of_int (m * 2 ^ nat (52 - e))"
    using e by (simp add: x_def power_int_def)
  then have "of_int (round_half_even (x * 2 powi (52 - e))) * 2 powi (e - 52)
      = x * 2 powi (52 - e) * 2 powi (e - 52)"
    by (simp only: round_half_even_of_int)
  also have "\<dots> = x"
    by (simp add: mult.assoc flip: power_int_add)
  finally show ?thesis
    using False by (simp add: binary64_def Let_def e_def x_def)
qed






text \<open>Sums of counts and the numbers that \<open>parseInt\<close> returns: an integer of
  magnitude up to \<open>2 ^ 53\<close> is kept as it is, the rounding of an integer is an integer,
  and an integer from \<open>2 ^ 1024\<close> on becomes \<open>Infinity\<close>.\<close>

lemma binary64_two_53:
  "binary64 9007199254740992 = 9007199254740992"
  "binary64 (- 9007199254740992) = - 9007199254740992"
  by code_simp+

lemma binary64_of_int_le:
  assumes "\<bar>m\<bar> \<le> 2 ^ 53"
  shows "binary64 (of_int m) = of_int m"
proof -
  have "\<bar>m\<bar> \<le> 9007199254740992" using assms by simp
  then have "\<bar>m\<bar> < 9007199254740992 \<or> m = 9007199254740992 \<or> m = - 9007199254740992"
    by linarith
  then consider "\<bar>m\<bar> < 2 ^ 53" | "m = 9007199254740992" | "m = - 9007199254740992"
    by auto
  then show ?thesis
  proof cases
    case 1
    then show ?thesis by (rule binary64_of_int)
  next
    case 2
    then show ?thesis using binary64_two_53(1) by simp
  next
    case 3
    then show ?thesis using binary64_two_53(2) by simp
  qed
qed

lemma binary64_integral: "of_int \<lfloor>binary64 (of_int m)\<rfloor> = binary64 (of_int m)"
proof (cases "\<bar>m\<bar> < 2 ^ 53")
  case True
  then show ?thesis by (simp add: binary64_of_int)
next
  case False
  define x :: rat where "x = of_int m"
  define e where "e = ilog2 \<bar>x\<bar>"
  have big: "(2::rat) ^ 53 \<le> \<bar>x\<bar>"
  proof -
    have "(2::int) ^ 53 \<le> \<bar>m\<bar>" using False by simp
    then have "(of_int (2 ^ 53) :: rat) \<le> of_int \<bar>m\<bar>" by (simp only: of_int_le_iff)
    then show ?thesis by (simp add: x_def)
  qed
  then have x0: "0 < \<bar>x\<bar>" "x \<noteq> 0" by auto
  have "\<bar>x\<bar> < 2 powi (e + 1)" unfolding e_def using x0(1) by (rule ilog2_bounds)
  with big have "(2::rat) powi 53 < 2 powi (e + 1)" by simp
  have "53 < e + 1"
  proof (rule ccontr)
    assume "\<not> 53 < e + 1"
    then have "e + 1 \<le> 53" by simp
    then have "(2::rat) powi (e + 1) \<le> 2 powi 53"
      by (intro power_int_increasing) simp_all
    with \<open>(2::rat) powi 53 < 2 powi (e + 1)\<close> show False by simp
  qed
  then have e: "0 \<le> e - 52" by simp
  have "binary64 x = of_int (round_half_even (x * 2 powi (52 - e))) * 2 powi (e - 52)"
    using x0(2) by (simp add: binary64_def Let_def e_def)
  also have "\<dots> = of_int (round_half_even (x * 2 powi (52 - e)) * 2 ^ nat (e - 52))"
    using e by (simp add: power_int_def)
  finally have "binary64 x = of_int (round_half_even (x * 2 powi (52 - e)) * 2 ^ nat (e - 52))" .
  then show ?thesis
    unfolding x_def by (simp only: floor_of_int)
qed

lemma js_add_integral: "of_int (js_add a b) = binary64 (of_int a + of_int b)"
  using binary64_integral [of "a + b"] by (simp add: js_add_def)

lemma js_add_exact:
  assumes "\<bar>a + b\<bar> \<le> 2 ^ 53"
  shows "js_add a b = a + b"
  using binary64_of_int_le [OF assms] by (simp add: js_add_def)

lemma toNumber_exact:
  assumes "\<bar>v\<bar> \<le> 2 ^ 53"
  shows "toNumber v = Finite v"
proof -
  have "(2::int) ^ 53 < 2 ^ 1024" by simp
  then have "v < 2 ^ 1024" "- (2 ^ 1024) < v" using assms by linarith+
  then show ?thesis
    using binary64_of_int_le [OF assms] by (simp add: toNumber_def Let_def)
qed

lemma js_add_two_53: "js_add 9007199254740992 1 = 9007199254740992"
  by code_simp

lemma round_half_even_ge_floor: "\<lfloor>x\<rfloor> \<le> round_half_even x"
  by (simp add: round_half_even_def Let_def)

lemma binary64_ge_pow2:
  assumes "0 < x"
  shows "2 powi (ilog2 x) \<le> binary64 x"
proof -
  define e where "e = ilog2 x"
  define m where "m = x * 2 powi (52 - e)"
  have lo: "2 powi e \<le> x" unfolding e_def using assms by (rule ilog2_bounds)
  have "2 powi e * 2 powi (52 - e) \<le> m"
    unfolding m_def using lo by (intro mult_right_mono) simp_all
  then have "(of_int (2 ^ 52) :: rat) \<le> m"
    by (simp flip: power_int_add)
  then have "2 ^ 52 \<le> \<lfloor>m\<rfloor>" by (simp only: le_floor_iff)
  then have "2 ^ 52 \<le> round_half_even m"
    using round_half_even_ge_floor [of m] by linarith
  then have "(of_int (2 ^ 52) :: rat) \<le> of_int (round_half_even m)"
    by (simp only: of_int_le_iff)
  then have step: "(of_int (2 ^ 52) :: rat) * 2 powi (e - 52)
      \<le> of_int (round_half_even m) * 2 powi (e - 52)"
    by (intro mult_right_mono) simp_all
  have b: "binary64 x = of_int (round_half_even m) * 2 powi (e - 52)"
    using assms by (simp add: binary64_def Let_def e_def m_def)
  have "2 powi e = (of_int (2 ^ 52) :: rat) * 2 powi (e - 52)"
    by (simp add: power_int_diff)
  also note step
  also note b [symmetric]
  finally show ?thesis by (simp only: e_def)
qed

lemma toNumber_overflow:
  assumes "2 ^ 1024 \<le> v"
  shows "toNumber v = Infinity"
proof -
  define x :: rat where "x = of_int v"
  have big: "(2::rat) powi 1024 \<le> x"
  proof -
    have "(of_int (2 ^ 1024) :: rat) \<le> of_int v" using assms by (simp only: of_int_le_iff)
    then show ?thesis by (simp add: x_def)
  qed
  then have x0: "0 < x" by (rule less_le_trans [rotated]) simp
  have "x < 2 powi (ilog2 x + 1)" using x0 by (rule ilog2_bounds)
  with big have lt: "(2::rat) powi 1024 < 2 powi (ilog2 x + 1)" by simp
  have "1024 < ilog2 x + 1"
  proof (rule ccontr)
    assume "\<not> 1024 < ilog2 x + 1"
    then have "ilog2 x + 1 \<le> 1024" by simp
    then have "(2::rat) powi (ilog2 x + 1) \<le> 2 powi 1024"
      by (intro power_int_increasing) simp_all
    with lt show False by simp
  qed
  then have "(2::rat) powi 1024 \<le> 2 powi (ilog2 x)"
    by (intro power_int_increasing) simp_all
  also have "\<dots> \<le> binary64 x" using x0 by (rule binary64_ge_pow2)
  finally have "(of_int (2 ^ 1024) :: rat) \<le> binary64 x" by simp
  then have "2 ^ 1024 \<le> \<lfloor>binary64 (of_int v)\<rfloor>"
    unfolding x_def by (simp only: le_floor_iff)
  then show ?thesis by (simp add: toNumber_def Let_def)
qed

section \<open>Adjust\<close>


lemma nth_updateGoalCount_other:
  assumes "i < length (goals st)" and "id_g (goals st ! i) \<noteq> goalId"
  shows "goals (updateGoalCount now goalId delta st) ! i = goals st ! i"
  using assms by (simp add: updateGoalCount_def)

lemma nth_updateGoalCount_match:
  assumes "i < length (goals st)" and "id_g (goals st ! i) = goalId"
  shows "goals (updateGoalCount now goalId delta st) ! i =
    (goals st ! i)\<lparr>entries := (entries (goals st ! i))
       (getPeriodKey (type (goals st ! i)) now \<mapsto>
          max 0 (js_add (getCountForPeriod (goals st ! i) (getPeriodKey (type (goals st ! i)) now))
             delta))\<rparr>"
  using assms by (simp add: updateGoalCount_def Let_def)

lemma updateGoalCount_absent:
  assumes "\<forall>g \<in> set (goals st). id_g g \<noteq> goalId"
  shows "updateGoalCount now goalId delta st = st"
proof -
  have "map (\<lambda>goal.
         if id_g goal \<noteq> goalId then goal
         else
           (let periodKey = getPeriodKey (type goal) now;
                currentCount = getCountForPeriod goal periodKey;
                nextCount = max 0 (js_add currentCount delta)
            in goal\<lparr>entries := (entries goal)(periodKey \<mapsto> nextCount)\<rparr>))
         (goals st) = map (\<lambda>goal. goal) (goals st)"
    using assms by (intro map_cong) auto
  then show ?thesis
    by (simp add: updateGoalCount_def)
qed

lemma jan5_keys:
  "getPeriodKey daily jan5 = ''2026-01-05''"
  "getPeriodKey monthly jan5 = ''2026-01''"
  "getPeriodKey anytime jan5 = ''all''"
  by (simp_all add: getPeriodKey_def formatDateKey_def formatMonthKey_def pad_def padStart_def
      String_of_def digits.simps jan5_def)

text \<open>
  C1 as the source has it. Adjust with an id that no goal carries returns the state it
  was given. Otherwise, at every position that holds a goal with that id, the entry at
  the goal's current period key (from its type and the current date) becomes
  \<open>max 0 (oldCount + delta)\<close> whenever that sum has magnitude at most \<open>2 ^ 53\<close>,
  where \<open>oldCount\<close> is the entry at that key or 0 when there is none; so a decrement
  at count 0 leaves the count at 0. Beyond that magnitude the sum is rounded to
  binary64 before the maximum is taken: for the steps 1 and -1 that the source makes,
  the entry becomes \<open>max 0 (js_add oldCount delta)\<close>.
\<close>

theorem updateGoalCount_adjusts:
  "((\<forall>g \<in> set (goals st). id_g g \<noteq> goalId) \<longrightarrow>
       updateGoalCount now goalId delta st = st) \<and>
   (\<forall>i < length (goals st). id_g (goals st ! i) = goalId \<longrightarrow>
      (let g = goals st ! i;
           g' = goals (updateGoalCount now goalId delta st) ! i;
           k = getPeriodKey (type g) now;
           oldCount = (case entries g k of None \<Rightarrow> 0 | Some n \<Rightarrow> n)
       in (\<bar>oldCount + delta\<bar> \<le> 2 ^ 53 \<longrightarrow>
             entries g' k = Some (max 0 (oldCount + delta)) \<and>
             getCountForPeriod g' k = max 0 (oldCount + delta)) \<and>
          (oldCount = 0 \<and> delta = - 1 \<longrightarrow> getCountForPeriod g' k = 0) \<and>
          (delta = 1 \<or> delta = - 1 \<longrightarrow>
             entries g' k = Some (max 0 (js_add oldCount delta)))))"
proof (intro conjI allI impI)
  assume "\<forall>g \<in> set (goals st). id_g g \<noteq> goalId"
  then show "updateGoalCount now goalId delta st = st"
    by (rule updateGoalCount_absent)
next
  fix i
  assume i: "i < length (goals st)" and m: "id_g (goals st ! i) = goalId"
  define g where "g = goals st ! i"
  define k where "k = getPeriodKey (type g) now"
  define oldCount where "oldCount = (case entries g k of None \<Rightarrow> 0 | Some n \<Rightarrow> n)"
  define g' where "g' = goals (updateGoalCount now goalId delta st) ! i"
  have g': "g' = g\<lparr>entries := (entries g)(k \<mapsto> max 0 (js_add oldCount delta))\<rparr>"
    unfolding g'_def nth_updateGoalCount_match [OF i m]
    by (simp add: g_def k_def oldCount_def getCountForPeriod_def)
  have exact: "entries g' k = Some (max 0 (oldCount + delta)) \<and>
      getCountForPeriod g' k = max 0 (oldCount + delta)"
    if "\<bar>oldCount + delta\<bar> \<le> 2 ^ 53"
    using js_add_exact [OF that] by (simp add: g' getCountForPeriod_def)
  have "\<bar>(0::int) + - 1\<bar> \<le> 2 ^ 53" by simp
  then have "js_add 0 (- 1) = 0 + - 1" by (rule js_add_exact)
  then have floor0: "oldCount = 0 \<and> delta = - 1 \<longrightarrow> getCountForPeriod g' k = 0"
    by (simp add: g' getCountForPeriod_def)
  show "let g = goals st ! i;
            g' = goals (updateGoalCount now goalId delta st) ! i;
            k = getPeriodKey (type g) now;
            oldCount = (case entries g k of None \<Rightarrow> 0 | Some n \<Rightarrow> n)
        in (\<bar>oldCount + delta\<bar> \<le> 2 ^ 53 \<longrightarrow>
              entries g' k = Some (max 0 (oldCount + delta)) \<and>
              getCountForPeriod g' k = max 0 (oldCount + delta)) \<and>
           (oldCount = 0 \<and> delta = - 1 \<longrightarrow> getCountForPeriod g' k = 0) \<and>
           (delta = 1 \<or> delta = - 1 \<longrightarrow>
              entries g' k = Some (max 0 (js_add oldCount delta)))"
  proof -
    have last: "entries g' k = Some (max 0 (js_add oldCount delta))"
      by (simp add: g')
    show ?thesis
      unfolding Let_def g_def [symmetric] k_def [symmetric] g'_def [symmetric]
        oldCount_def [symmetric]
      using exact floor0 last by blast
  qed
qed

theorem updateGoalCount_adjusts_witness:
  "''g9'' \<notin> set (map id_g (goals home1)) \<and>
   updateGoalCount jan5 ''g9'' 1 home1 = home1 \<and>
   0 < length (goals home1) \<and> id_g (goals home1 ! 0) = ''g1'' \<and>
   entries (goals home1 ! 0) ''2026-01-05'' = None \<and>
   \<bar>(0::int) + - 1\<bar> \<le> 2 ^ 53 \<and>
   entries (goals (updateGoalCount jan5 ''g1'' (- 1) home1) ! 0) ''2026-01-05'' = Some 0 \<and>
   \<bar>(0::int) + 1\<bar> \<le> 2 ^ 53 \<and>
   entries (goals (updateGoalCount jan5 ''g1'' 1 home1) ! 0) ''2026-01-05'' = Some 1"
proof -
  have none: "\<forall>g \<in> set (goals home1). id_g g \<noteq> ''g9''"
    by (simp add: home1_def walk_def summit_def)
  have i: "0 < length (goals home1)" and m: "id_g (goals home1 ! 0) = ''g1''"
    by (simp_all add: home1_def walk_def)
  have "updateGoalCount jan5 ''g9'' 1 home1 = home1"
    using none by (rule updateGoalCount_adjusts [THEN conjunct1, THEN mp])
  moreover have "entries (goals (updateGoalCount jan5 ''g1'' (- 1) home1) ! 0) ''2026-01-05''
      = Some 0"
    using updateGoalCount_adjusts [of home1 "''g1''" jan5 "- 1", THEN conjunct2, rule_format, OF i m]
    by (simp add: Let_def home1_def walk_def jan5_keys)
  moreover have "entries (goals (updateGoalCount jan5 ''g1'' 1 home1) ! 0) ''2026-01-05''
      = Some 1"
    using updateGoalCount_adjusts [of home1 "''g1''" jan5 1, THEN conjunct2, rule_format, OF i m]
    by (simp add: Let_def home1_def walk_def jan5_keys)
  ultimately show ?thesis
    using none i m by (simp add: home1_def walk_def)
qed

text \<open>The claim as worded fails at a stored count of \<open>2 ^ 53\<close>: the sum with 1 lies
  half way between two binary64 values and is rounded back to \<open>2 ^ 53\<close>, so the entry
  stays 9007199254740992 where \<open>max(0, oldCount + delta)\<close> is 9007199254740993.\<close>

theorem updateGoalCount_adjusts_counterexample:
  "id_g steps = ''g6'' \<and>
   getPeriodKey (type steps) jan5 = ''2026-01-05'' \<and>
   entries steps ''2026-01-05'' = Some 9007199254740992 \<and>
   entries (goals (updateGoalCount jan5 ''g6'' 1 (home1\<lparr>goals := [steps]\<rparr>)) ! 0) ''2026-01-05''
     = Some 9007199254740992 \<and>
   max 0 (9007199254740992 + 1) = (9007199254740993 :: int)"
proof -
  have i: "0 < length (goals (home1\<lparr>goals := [steps]\<rparr>))"
    and m: "id_g (goals (home1\<lparr>goals := [steps]\<rparr>) ! 0) = ''g6''"
    by (simp_all add: steps_def)
  have k: "getPeriodKey (type steps) jan5 = ''2026-01-05''"
    by (simp add: steps_def jan5_keys)
  have "entries (goals (updateGoalCount jan5 ''g6'' 1 (home1\<lparr>goals := [steps]\<rparr>)) ! 0)
      ''2026-01-05'' = Some 9007199254740992"
    unfolding nth_updateGoalCount_match [OF i m]
    using k by (simp add: getCountForPeriod_def steps_def js_add_two_53)
  then show ?thesis
    using k by (simp add: steps_def)
qed

text \<open>
  C9. Adjust changes nothing but the entry at the current period key of the goals that
  carry the id: the list keeps its length and order, every goal with another id is the
  goal it was, and a goal with the id keeps its entries under every other key and its
  id, title, type, notes, targetCount, dueDate and createdAt. The form and the loaded
  flag are untouched.
\<close>

theorem updateGoalCount_frame:
  "length (goals (updateGoalCount now goalId delta st)) = length (goals st) \<and>
   form (updateGoalCount now goalId delta st) = form st \<and>
   isLoaded (updateGoalCount now goalId delta st) = isLoaded st \<and>
   (\<forall>i < length (goals st).
      (let g = goals st ! i;
           g' = goals (updateGoalCount now goalId delta st) ! i
       in (id_g g \<noteq> goalId \<longrightarrow> g' = g) \<and>
          (\<forall>k. k \<noteq> getPeriodKey (type g) now \<longrightarrow> entries g' k = entries g k) \<and>
          id_g g' = id_g g \<and> title g' = title g \<and> type g' = type g \<and>
          notes_g g' = notes_g g \<and> targetCount g' = targetCount g \<and>
          dueDate g' = dueDate g \<and> createdAt g' = createdAt g))"
proof (intro conjI allI impI)
  fix i
  assume i: "i < length (goals st)"
  show "let g = goals st ! i;
            g' = goals (updateGoalCount now goalId delta st) ! i
        in (id_g g \<noteq> goalId \<longrightarrow> g' = g) \<and>
           (\<forall>k. k \<noteq> getPeriodKey (type g) now \<longrightarrow> entries g' k = entries g k) \<and>
           id_g g' = id_g g \<and> title g' = title g \<and> type g' = type g \<and>
           notes_g g' = notes_g g \<and> targetCount g' = targetCount g \<and>
           dueDate g' = dueDate g \<and> createdAt g' = createdAt g"
  proof (cases "id_g (goals st ! i) = goalId")
    case True
    show ?thesis
      by (simp add: nth_updateGoalCount_match [OF i True] Let_def True)
  next
    case False
    show ?thesis
      by (simp add: nth_updateGoalCount_other [OF i False] Let_def False)
  qed
qed (simp_all add: updateGoalCount_def)

theorem updateGoalCount_frame_witness:
  "1 < length (goals home1) \<and>
   length (goals (updateGoalCount jan5 ''g2'' 1 home1)) = 2 \<and>
   id_g (goals home1 ! 0) \<noteq> ''g2'' \<and>
   goals (updateGoalCount jan5 ''g2'' 1 home1) ! 0 = walk \<and>
   ''2026-01-04'' \<noteq> getPeriodKey (type (goals home1 ! 1)) jan5 \<and>
   entries (goals (updateGoalCount jan5 ''g2'' 1 home1) ! 1) ''2026-01-04'' = None \<and>
   title (goals (updateGoalCount jan5 ''g2'' 1 home1) ! 1) = ''Reach the summit''"
proof -
  note frame = updateGoalCount_frame [of jan5 "''g2''" 1 home1]
  have len: "length (goals (updateGoalCount jan5 ''g2'' 1 home1)) = 2"
    using frame [THEN conjunct1] by (simp add: home1_def)
  note at = frame [THEN conjunct2, THEN conjunct2, THEN conjunct2, rule_format]
  have "goals (updateGoalCount jan5 ''g2'' 1 home1) ! 0 = walk"
    using at [of 0] by (simp add: Let_def home1_def walk_def)
  moreover have "entries (goals (updateGoalCount jan5 ''g2'' 1 home1) ! 1) ''2026-01-04'' = None
      \<and> title (goals (updateGoalCount jan5 ''g2'' 1 home1) ! 1) = ''Reach the summit''"
    using at [of 1] by (simp add: Let_def home1_def summit_def jan5_keys)
  ultimately show ?thesis
    using len by (simp add: home1_def walk_def summit_def jan5_keys)
qed

text \<open>
  C10. A decrement on a goal whose entries hold nothing at the current period key is
  not the identity on the state: the key enters the map with value 0, so the map's
  domain grows by that key and the goal and the state differ from the old ones, while
  the count read back at every key is the count read before.
\<close>

theorem updateGoalCount_decrement_inserts_key:
  assumes "i < length (goals st)"
    and "id_g (goals st ! i) = goalId"
    and "entries (goals st ! i) (getPeriodKey (type (goals st ! i)) now) = None"
  shows "let g = goals st ! i;
             g' = goals (updateGoalCount now goalId (- 1) st) ! i;
             k = getPeriodKey (type g) now
         in entries g' k = Some 0 \<and>
            dom (entries g') = insert k (dom (entries g)) \<and>
            k \<notin> dom (entries g) \<and>
            g' \<noteq> g \<and>
            updateGoalCount now goalId (- 1) st \<noteq> st \<and>
            (\<forall>k'. getCountForPeriod g' k' = getCountForPeriod g k')"
proof -
  define g where "g = goals st ! i"
  define k where "k = getPeriodKey (type g) now"
  define g' where "g' = goals (updateGoalCount now goalId (- 1) st) ! i"
  have none: "entries g k = None"
    using assms(3) by (simp add: g_def k_def)
  have count0: "getCountForPeriod g k = 0"
    by (simp add: getCountForPeriod_def none)
  have "\<bar>(0::int) + - 1\<bar> \<le> 2 ^ 53" by simp
  then have sum: "js_add 0 (- 1) = 0 + - 1" by (rule js_add_exact)
  have g': "g' = g\<lparr>entries := (entries g)(k \<mapsto> 0)\<rparr>"
    unfolding g'_def nth_updateGoalCount_match [OF assms(1,2)]
    by (simp add: g_def [symmetric] k_def [symmetric] count0 sum)
  have e: "entries g' k = Some 0" by (simp add: g')
  have d: "dom (entries g') = insert k (dom (entries g))" by (simp add: g')
  have nd: "k \<notin> dom (entries g)" using none by (simp add: domIff)
  have ne: "g' \<noteq> g"
  proof
    assume "g' = g"
    then have "entries g' k = entries g k" by simp
    then show False using e none by simp
  qed
  have nst: "updateGoalCount now goalId (- 1) st \<noteq> st"
  proof
    assume "updateGoalCount now goalId (- 1) st = st"
    then have "g' = g" by (simp add: g'_def g_def)
    then show False using ne by simp
  qed
  have same: "getCountForPeriod g' k' = getCountForPeriod g k'" for k'
    by (simp add: g' getCountForPeriod_def none)
  show ?thesis
    unfolding Let_def g_def [symmetric] k_def [symmetric] g'_def [symmetric]
    using e d nd ne nst same by simp
qed

theorem updateGoalCount_decrement_inserts_key_witness:
  "0 < length (goals home1) \<and> id_g (goals home1 ! 0) = ''g1'' \<and>
   entries (goals home1 ! 0) (getPeriodKey (type (goals home1 ! 0)) jan5) = None \<and>
   dom (entries (goals home1 ! 0)) = {} \<and>
   dom (entries (goals (updateGoalCount jan5 ''g1'' (- 1) home1) ! 0)) = {''2026-01-05''} \<and>
   entries (goals (updateGoalCount jan5 ''g1'' (- 1) home1) ! 0) ''2026-01-05'' = Some 0 \<and>
   updateGoalCount jan5 ''g1'' (- 1) home1 \<noteq> home1"
proof -
  have i: "0 < length (goals home1)" and m: "id_g (goals home1 ! 0) = ''g1''"
    and n: "entries (goals home1 ! 0) (getPeriodKey (type (goals home1 ! 0)) jan5) = None"
    by (simp_all add: home1_def walk_def)
  have k: "getPeriodKey (type (goals home1 ! 0)) jan5 = ''2026-01-05''"
    by (simp add: home1_def walk_def jan5_keys)
  have d0: "dom (entries (goals home1 ! 0)) = {}"
    by (simp add: home1_def walk_def)
  show ?thesis
    using updateGoalCount_decrement_inserts_key [OF i m n] i m n d0
    by (simp add: Let_def k)
qed

section \<open>Targets and completion\<close>

text \<open>
  C7. An anytime goal without a targetCount has no target. It is complete exactly when
  its count under the key \<open>all\<close> (its period key at every date) is positive: not at
  count 0, and at every count from 1 on. Its card shows no progress bar, whatever the
  count and the key (the constant \<open>progress\<close> of the card is 0 then and is not
  rendered).
\<close>

theorem anytime_without_target:
  assumes "type g = anytime" and "targetCount g = None"
  shows "getPeriodKey (type g) now = ''all'' \<and>
         getTargetForGoal g = None \<and>
         isGoalComplete g ''all'' = (0 < getCountForPeriod g ''all'') \<and>
         (getCountForPeriod g ''all'' = 0 \<longrightarrow> \<not> isGoalComplete g ''all'') \<and>
         (1 \<le> getCountForPeriod g ''all'' \<longrightarrow> isGoalComplete g ''all'') \<and>
         (\<forall>k. progressBar g k = None) \<and>
         spec_Progress g ''all'' = None"
proof -
  have t: "getTargetForGoal g = None"
    using assms by (simp add: getTargetForGoal_def truthy_def)
  have c: "isGoalComplete g ''all'' = (0 < getCountForPeriod g ''all'')"
    by (simp add: isGoalComplete_def t)
  show ?thesis
    using assms by (simp add: t c getPeriodKey_def progressBar_def truthy_def spec_Progress_def)
qed

theorem anytime_without_target_witness:
  "type summit = anytime \<and> targetCount summit = None \<and>
   type rest_day = anytime \<and> targetCount rest_day = None \<and>
   getCountForPeriod summit ''all'' = 1 \<and> isGoalComplete summit ''all'' \<and>
   getCountForPeriod rest_day ''all'' = 0 \<and> \<not> isGoalComplete rest_day ''all'' \<and>
   progressBar summit ''all'' = None \<and> progressBar rest_day ''all'' = None"
proof -
  have s: "type summit = anytime" "targetCount summit = None"
    and r: "type rest_day = anytime" "targetCount rest_day = None"
    by (simp_all add: summit_def rest_day_def)
  have cs: "getCountForPeriod summit ''all'' = 1" and cr: "getCountForPeriod rest_day ''all'' = 0"
    by (simp_all add: summit_def rest_day_def getCountForPeriod_def)
  show ?thesis
    using anytime_without_target [OF s, of jan5] anytime_without_target [OF r, of jan5] s r cs cr
    by simp
qed

text \<open>
  C4 as the source has it. A targetCount that is set and not zero is the target. A
  targetCount that is absent or zero gives the default: 1 for a daily or a monthly goal,
  no target for an anytime goal.
\<close>

theorem getTargetForGoal_cases:
  "(\<forall>n. targetCount g = Some n \<and> n \<noteq> Finite 0 \<longrightarrow> getTargetForGoal g = Some n) \<and>
   (targetCount g = None \<or> targetCount g = Some (Finite 0) \<longrightarrow>
      getTargetForGoal g = (if type g = anytime then None else Some (Finite 1)))"
  by (auto simp add: getTargetForGoal_def truthy_def)

theorem getTargetForGoal_cases_witness:
  "targetCount walk = Some (Finite 4) \<and> Finite 4 \<noteq> Finite 0 \<and>
   getTargetForGoal walk = Some (Finite 4) \<and>
   targetCount summit = None \<and> getTargetForGoal summit = None \<and>
   targetCount zero_target = Some (Finite 0) \<and> getTargetForGoal zero_target = Some (Finite 1)"
proof -
  have w: "targetCount walk = Some (Finite 4) \<and> Finite 4 \<noteq> Finite 0"
    and s: "targetCount summit = None"
    and z: "targetCount zero_target = Some (Finite 0)"
    and ty: "type summit = anytime" "type zero_target = daily"
    by (simp_all add: walk_def summit_def zero_target_def)
  have "getTargetForGoal walk = Some (Finite 4)"
    using w by (rule getTargetForGoal_cases [THEN conjunct1, rule_format])
  moreover have "getTargetForGoal summit = None"
    using getTargetForGoal_cases [of summit, THEN conjunct2] s ty by simp
  moreover have "getTargetForGoal zero_target = Some (Finite 1)"
    using getTargetForGoal_cases [of zero_target, THEN conjunct2] z ty by simp
  ultimately show ?thesis using w s z by simp
qed

text \<open>The claim as worded fails at a stored goal whose targetCount is 0: the field is
  set, and the target is the default, not the field.\<close>

theorem getTargetForGoal_zero_counterexample:
  "\<not> (targetCount zero_target \<noteq> None \<longrightarrow> getTargetForGoal zero_target = targetCount zero_target)"
  by (simp add: zero_target_def getTargetForGoal_def truthy_def)

section \<open>Load\<close>

text \<open>
  C8. The load effect on the state the component starts in. When nothing is stored,
  when the stored text does not parse, or when it parses to a value that is not an
  array, the goal list stays empty; when it parses to an array, the goal list is that
  array, element for element. In every case the state is marked as loaded.
\<close>

theorem loadEffect_initial:
  "goals initialHome = [] \<and>
   isLoaded (loadEffect JSON_parse stored initialHome) \<and>
   form (loadEffect JSON_parse stored initialHome) = form initialHome \<and>
   (stored = None \<longrightarrow> goals (loadEffect JSON_parse stored initialHome) = []) \<and>
   (\<forall>s. stored = Some s \<and> JSON_parse s = None \<longrightarrow>
      goals (loadEffect JSON_parse stored initialHome) = []) \<and>
   (\<forall>s. stored = Some s \<and> JSON_parse s = Some NotArray \<longrightarrow>
      goals (loadEffect JSON_parse stored initialHome) = []) \<and>
   (\<forall>s xs. stored = Some s \<and> s \<noteq> [] \<and> JSON_parse s = Some (Array xs) \<longrightarrow>
      goals (loadEffect JSON_parse stored initialHome) = xs)"
  by (auto simp add: loadEffect_def initialHome_def split: option.splits Parsed.splits)

theorem loadEffect_initial_witness:
  "parse1 ''not json'' = None \<and>
   goals (loadEffect parse1 (Some ''not json'') initialHome) = [] \<and>
   parse1 ''{}'' = Some NotArray \<and>
   goals (loadEffect parse1 (Some ''{}'') initialHome) = [] \<and>
   parse1 ''[walk]'' = Some (Array [walk]) \<and>
   goals (loadEffect parse1 (Some ''[walk]'') initialHome) = [walk] \<and>
   goals (loadEffect parse1 None initialHome) = [] \<and>
   isLoaded (loadEffect parse1 (Some ''not json'') initialHome)"
proof -
  have p: "parse1 ''not json'' = None" "parse1 ''{}'' = Some NotArray"
    "parse1 ''[walk]'' = Some (Array [walk])"
    by (simp_all add: parse1_def)
  note L = loadEffect_initial [of parse1]
  have "goals (loadEffect parse1 (Some ''not json'') initialHome) = []"
    using L [of "Some ''not json''"] p by simp
  moreover have "goals (loadEffect parse1 (Some ''{}'') initialHome) = []"
    using L [of "Some ''{}''"] p by simp
  moreover have "goals (loadEffect parse1 (Some ''[walk]'') initialHome) = [walk]"
    using L [of "Some ''[walk]''"] p by simp
  moreover have "goals (loadEffect parse1 None initialHome) = []"
    using L [of None] by simp
  moreover have "isLoaded (loadEffect parse1 (Some ''not json'') initialHome)"
    using L [of "Some ''not json''"] by simp
  ultimately show ?thesis using p by simp
qed

section \<open>Create\<close>

lemma parseInt_examples:
  "parseInt ''-5'' = Some (Finite (- 5))"
  "parseInt ''0'' = Some (Finite 0)"
  "parseInt ''four'' = None"
  "parseInt '' 4 times'' = Some (Finite 4)"
  "parseInt (CHR 0xA0 # ''12abc'') = Some (Finite 12)"
  "parseInt ''9007199254740993'' = Some (Finite 9007199254740992)"
  by (simp_all add: parseInt_def isWhiteSpace_def isDigit_def digitValue_def toNumber_exact)
    code_simp

text \<open>
  C2 as the source has it. Create on any state. A title that trims to the empty string
  returns the state it was given, so the goal list is unchanged. Any other title puts
  exactly one new goal in front of the old list: its title is the trimmed title, its id
  is the identifier that \<open>crypto.randomUUID()\<close> returned for this call, its type is the
  type chosen in the form, and its entries are empty. The identifier is not compared
  with the ids of the old list.
\<close>

theorem handleSubmit_creates:
  "(trim (title_f (form st)) = [] \<longrightarrow> handleSubmit randomUUID nowISO st = st) \<and>
   (trim (title_f (form st)) \<noteq> [] \<longrightarrow>
      (let st' = handleSubmit randomUUID nowISO st; g = hd (goals st')
       in goals st' = g # goals st \<and>
          title g = trim (title_f (form st)) \<and>
          id_g g = randomUUID \<and>
          type g = type_f (form st) \<and>
          entries g = Map.empty \<and>
          notes_g g = trim (notes_f (form st)) \<and>
          createdAt g = nowISO))"
  by (simp add: handleSubmit_def Let_def)

theorem handleSubmit_creates_witness:
  "trim (title_f (form (home1\<lparr>form := form_of [CHR '' '', CHR 0xA0, CHR 0x09] ''3''\<rparr>))) = [] \<and>
   goals (handleSubmit ''g7'' ''2026-01-05T09:00:00.000Z''
     (home1\<lparr>form := form_of [CHR '' '', CHR 0xA0, CHR 0x09] ''3''\<rparr>)) = goals home1 \<and>
   trim (title_f (form (home1\<lparr>form := form_of '' Read  more '' ''3''\<rparr>))) = ''Read  more'' \<and>
   length (goals (handleSubmit ''g7'' ''2026-01-05T09:00:00.000Z''
     (home1\<lparr>form := form_of '' Read  more '' ''3''\<rparr>))) = 3 \<and>
   tl (goals (handleSubmit ''g7'' ''2026-01-05T09:00:00.000Z''
     (home1\<lparr>form := form_of '' Read  more '' ''3''\<rparr>))) = goals home1 \<and>
   title (hd (goals (handleSubmit ''g7'' ''2026-01-05T09:00:00.000Z''
     (home1\<lparr>form := form_of '' Read  more '' ''3''\<rparr>)))) = ''Read  more'' \<and>
   id_g (hd (goals (handleSubmit ''g7'' ''2026-01-05T09:00:00.000Z''
     (home1\<lparr>form := form_of '' Read  more '' ''3''\<rparr>)))) = ''g7''"
proof -
  define blank where "blank = home1\<lparr>form := form_of [CHR '' '', CHR 0xA0, CHR 0x09] ''3''\<rparr>"
  define filled where "filled = home1\<lparr>form := form_of '' Read  more '' ''3''\<rparr>"
  have b: "trim (title_f (form blank)) = []"
    by (simp add: blank_def form_of_def trim_def isWhiteSpace_def)
  have f: "trim (title_f (form filled)) = ''Read  more''"
    by (simp add: filled_def form_of_def trim_def isWhiteSpace_def)
  have gs: "goals blank = goals home1" "goals filled = goals home1"
    by (simp_all add: blank_def filled_def)
  have "handleSubmit ''g7'' ''2026-01-05T09:00:00.000Z'' blank = blank"
    using b by (rule handleSubmit_creates [THEN conjunct1, THEN mp])
  then have 1: "goals (handleSubmit ''g7'' ''2026-01-05T09:00:00.000Z'' blank) = goals home1"
    by (simp add: gs)
  have ne: "trim (title_f (form filled)) \<noteq> []" by (simp add: f)
  have 2: "goals (handleSubmit ''g7'' ''2026-01-05T09:00:00.000Z'' filled)
      = hd (goals (handleSubmit ''g7'' ''2026-01-05T09:00:00.000Z'' filled)) # goals home1 \<and>
     title (hd (goals (handleSubmit ''g7'' ''2026-01-05T09:00:00.000Z'' filled))) = ''Read  more'' \<and>
     id_g (hd (goals (handleSubmit ''g7'' ''2026-01-05T09:00:00.000Z'' filled))) = ''g7''"
    using handleSubmit_creates [of filled "''g7''" "''2026-01-05T09:00:00.000Z''",
        THEN conjunct2, THEN mp, OF ne]
    by (simp add: Let_def f gs)
  then have eq: "goals (handleSubmit ''g7'' ''2026-01-05T09:00:00.000Z'' filled)
      = hd (goals (handleSubmit ''g7'' ''2026-01-05T09:00:00.000Z'' filled)) # goals home1"
    by simp
  have 3: "length (goals (handleSubmit ''g7'' ''2026-01-05T09:00:00.000Z'' filled)) = 3"
    by (subst eq) (simp add: home1_def)
  have 4: "tl (goals (handleSubmit ''g7'' ''2026-01-05T09:00:00.000Z'' filled)) = goals home1"
    by (subst eq) simp
  show ?thesis
    using b f 1 2 3 4 unfolding blank_def [symmetric] filled_def [symmetric] by simp
qed

text \<open>The claim as worded fails when the identifier drawn for the call is one that a
  stored goal carries already: the new goal takes it, and the list holds the id twice.\<close>

theorem handleSubmit_creates_counterexample:
  "trim (title_f (form (home2\<lparr>form := form_of ''Read'' ''3''\<rparr>))) = ''Read'' \<and>
   map id_g (goals home2) = [uuid1, ''g2''] \<and>
   map id_g (goals (handleSubmit uuid1 ''2026-01-05T09:00:00.000Z''
     (home2\<lparr>form := form_of ''Read'' ''3''\<rparr>))) = [uuid1, uuid1, ''g2''] \<and>
   id_g (hd (goals (handleSubmit uuid1 ''2026-01-05T09:00:00.000Z''
     (home2\<lparr>form := form_of ''Read'' ''3''\<rparr>)))) \<in> set (map id_g (goals home2))"
  by (simp add: handleSubmit_def Let_def home2_def form_of_def trim_def isWhiteSpace_def
      walk_def summit_def)

lemma percent_1_neg5: "Math_round (js_mul (js_div 1 (- 5)) 100) = - 20"
  by code_simp

text \<open>
  C3. The source at the target text \<open>-5\<close>. The guard of \<open>handleSubmit\<close> turns
  \<open>NaN\<close> and 0 into an absent targetCount and lets every other number through, so the
  created goal carries the targetCount -5. Its target is -5: the goal is complete at
  count 0, and after one check-in its card shows -20% of target.
\<close>

theorem handleSubmit_negative_target:
  "targetCount (hd (goals (handleSubmit ''g7'' ''2026-01-05T09:00:00.000Z''
     (home1\<lparr>form := form_of ''Dive'' ''-5''\<rparr>)))) = Some (Finite (- 5)) \<and>
   getCountForPeriod (hd (goals (handleSubmit ''g7'' ''2026-01-05T09:00:00.000Z''
     (home1\<lparr>form := form_of ''Dive'' ''-5''\<rparr>)))) ''2026-01'' = 0 \<and>
   isGoalComplete (hd (goals (handleSubmit ''g7'' ''2026-01-05T09:00:00.000Z''
     (home1\<lparr>form := form_of ''Dive'' ''-5''\<rparr>)))) ''2026-01'' \<and>
   progressBar (hd (goals (updateGoalCount jan5 ''g7'' 1
     (handleSubmit ''g7'' ''2026-01-05T09:00:00.000Z''
       (home1\<lparr>form := form_of ''Dive'' ''-5''\<rparr>))))) ''2026-01'' = Some (- 20)"
proof -
  define st' where "st' = handleSubmit ''g7'' ''2026-01-05T09:00:00.000Z''
     (home1\<lparr>form := form_of ''Dive'' ''-5''\<rparr>)"
  define g where "g = \<lparr>id_g = ''g7'', title = ''Dive'', type = monthly, notes_g = ''alpine'',
     targetCount = Some (Finite (- 5)), dueDate = None, createdAt = ''2026-01-05T09:00:00.000Z'',
     entries = Map.empty\<rparr>"
  have st': "st' = \<lparr>goals = g # goals home1, form = emptyForm, isLoaded = True\<rparr>"
    by (simp add: st'_def g_def handleSubmit_def Let_def home1_def form_of_def trim_def
        isWhiteSpace_def parseInt_examples)
  have t: "getTargetForGoal g = Some (Finite (- 5))"
    by (simp add: g_def getTargetForGoal_def truthy_def)
  have c: "getCountForPeriod g ''2026-01'' = 0"
    by (simp add: g_def getCountForPeriod_def)
  have compl: "isGoalComplete g ''2026-01''"
    by (simp add: isGoalComplete_def t c js_ge_def)
  have "\<bar>(0::int) + 1\<bar> \<le> 2 ^ 53" by simp
  then have sum: "js_add 0 1 = 0 + 1" by (rule js_add_exact)
  have up: "hd (goals (updateGoalCount jan5 ''g7'' 1 st')) = g\<lparr>entries := [''2026-01'' \<mapsto> 1]\<rparr>"
    by (simp add: st' updateGoalCount_def Let_def g_def jan5_keys getCountForPeriod_def sum)
  have bar: "progressBar (g\<lparr>entries := [''2026-01'' \<mapsto> 1]\<rparr>) ''2026-01'' = Some (- 20)"
    by (simp add: progressBar_def progress_def getTargetForGoal_def truthy_def g_def
        getCountForPeriod_def js_div_Number_def percent_1_neg5)
  have hd: "hd (goals st') = g" by (simp add: st')
  have tc: "targetCount g = Some (Finite (- 5))" by (simp add: g_def)
  show ?thesis
    unfolding st'_def [symmetric] hd up using tc c compl bar by simp
qed

section \<open>Statistics\<close>







text \<open>The doubles behind 23 of 40: the quotient is the double next below 0.575, the
  product the double next below 57.5 (printed as 57.49999999999999).\<close>

lemma doubles_23_40:
  "js_div 23 40 = 5179139571476070 / 2 ^ 53"
  "js_mul (js_div 23 40) 100 = 8092405580431359 / 2 ^ 47"
  "(8092405580431359 :: rat) / 2 ^ 47 < 115 / 2"
  by code_simp+




section \<open>Progress of one goal\<close>

lemma getTargetForGoal_nonzero:
  assumes "getTargetForGoal g = Some t"
  shows "t \<noteq> Finite 0"
  using assms by (auto simp add: getTargetForGoal_def truthy_def split: if_splits)

lemma progressBar_truthy:
  assumes "getTargetForGoal g = Some t"
  shows "progressBar g k = Some (progress g k)"
  using assms getTargetForGoal_nonzero [OF assms]
  by (simp add: progressBar_def truthy_def)











end
